theory Spec2Isabelle
  imports Complex_Main
begin

section \<open>Data model of \<open>core/geometry.py\<close>\<close>

text \<open>
  Python floats are modelled as reals (rounding error of the floating-point unit is not
  modelled), Python ints as \<open>int\<close>, a coordinate list \<open>[x, y, z]\<close> as a triple, and
  \<open>range(n)\<close> as \<open>[0..<nat n]\<close>, which is empty for \<open>n \<le> 0\<close> as in Python.
  Exceptions are values of \<open>py_error\<close>.
\<close>

type_synonym point = "real \<times> real \<times> real"

datatype py_error = NameError | IndexError | KeyError | ZeroDivisionError | ValueError

text \<open>The dictionary \<open>params\<close>, with the keys read by \<open>generate_structure\<close>
  (the count keys after \<open>int(...)\<close>).\<close>

record params =
  panel_length :: real
  panel_width :: real
  panel_thickness :: real
  angle :: real
  rows :: int
  cols :: int
  front_offset :: real
  rear_offset :: real
  purlin_offset :: real
  rafter_purlin_offset :: real
  hor_panel_overhang :: real
  hor_purlin_overhang :: real
  h_gap :: real
  v_gap :: real
  col_min_height :: real
  col_len :: real
  col_wid :: real
  col_thk :: real
  raf_len :: real
  raf_wid :: real
  raf_thk :: real
  pur_len :: real
  pur_wid :: real
  pur_thk :: real
  blk_len :: real
  blk_wid :: real
  blk_heigth :: real
  y_cols :: int
  x_cols :: int
  copies_in_x :: int
  x_gap :: real
  copies_in_y :: int
  y_gap :: real

text \<open>
  What the solid modelling kernel is asked to build. \<open>create_component_cq\<close> requests a
  box, \<open>create_c_section_cq\<close> an open channel with a wall thickness; both rotate the
  solid about its own origin by \<open>tilt_angle[i]\<close> around \<open>rot_tup[i]\<close> for every index of
  \<open>tilt_angle\<close> and then translate it to \<open>center\<close>. Tessellation is the kernel's business
  and is not modelled: a mesh is the request itself.
\<close>

datatype profile = Box | CSection real

record mesh =
  m_profile :: profile
  m_center :: point
  m_length :: real
  m_width :: real
  m_height :: real
  m_rotations :: "((int \<times> int \<times> int) \<times> real) list"
  m_color :: string
  m_name :: string

record scatter =
  s_x :: "real list"
  s_y :: "real list"
  s_z :: "real list"
  s_color :: string
  s_size :: nat
  s_name :: string

datatype primitive = Mesh3d mesh | Scatter3d scatter

definition create_component_cq ::
  "point \<Rightarrow> real \<Rightarrow> real \<Rightarrow> real \<Rightarrow> string \<Rightarrow> real list \<Rightarrow> (int \<times> int \<times> int) list \<Rightarrow> string
     \<Rightarrow> primitive" where
  "create_component_cq center length' width height color tilt_angle rot_tup name =
     Mesh3d \<lparr>m_profile = Box, m_center = center, m_length = length', m_width = width,
       m_height = height, m_rotations = zip rot_tup tilt_angle, m_color = color,
       m_name = name\<rparr>"

definition create_c_section_cq ::
  "point \<Rightarrow> real \<Rightarrow> real \<Rightarrow> real \<Rightarrow> real \<Rightarrow> string \<Rightarrow> (int \<times> int \<times> int) list \<Rightarrow> real list
     \<Rightarrow> string \<Rightarrow> primitive" where
  "create_c_section_cq center length' width height thickness color rot_tup tilt_angle name =
     Mesh3d \<lparr>m_profile = CSection thickness, m_center = center, m_length = length',
       m_width = width, m_height = height, m_rotations = zip rot_tup tilt_angle,
       m_color = color, m_name = name\<rparr>"

text \<open>\<open>create_nodes_plotly\<close>: \<open>None\<close> for an empty list, otherwise one marker trace.\<close>

definition create_nodes_plotly :: "point list \<Rightarrow> scatter option" where
  "create_nodes_plotly nodes_list =
     (if nodes_list = [] then None
      else Some \<lparr>s_x = map (\<lambda>p. fst p) nodes_list,
                 s_y = map (\<lambda>p. fst (snd p)) nodes_list,
                 s_z = map (\<lambda>p. snd (snd p)) nodes_list,
                 s_color = ''red'', s_size = 6, s_name = ''FEA Nodes''\<rparr>)"

text \<open>\<open>if node_trace: meshes.append(node_trace)\<close>; a trace is an object of the plotting
  library and counts as true, \<open>None\<close> as false.\<close>

definition append_node_trace :: "primitive list \<Rightarrow> point list \<Rightarrow> primitive list" where
  "append_node_trace meshes all_fea_nodes =
     (case create_nodes_plotly all_fea_nodes of
        None \<Rightarrow> meshes
      | Some node_trace \<Rightarrow> meshes @ [Scatter3d node_trace])"

subsection \<open>Decimal rendering\<close>

definition digit_char :: "nat \<Rightarrow> char" where
  "digit_char d = ''0123456789'' ! d"

fun str_nat :: "nat \<Rightarrow> string" where
  "str_nat n = (if n < 10 then [digit_char n]
                else str_nat (n div 10) @ [digit_char (n mod 10)])"

declare str_nat.simps [simp del]

text \<open>\<open>str(n)\<close> of a Python int, as in \<open>f"Panel R{r+1}C{c+1}"\<close>.\<close>

definition str_int :: "int \<Rightarrow> string" where
  "str_int n = (if n < 0 then CHR ''-'' # str_nat (nat (- n)) else str_nat (nat n))"

section \<open>Derived dimensions\<close>

definition angle_rad :: "params \<Rightarrow> real" where
  "angle_rad p = angle p * pi / 180"

definition horiz_spacing :: "params \<Rightarrow> real" where
  "horiz_spacing p = panel_width p + h_gap p"

definition vert_spacing :: "params \<Rightarrow> real" where
  "vert_spacing p = panel_length p + v_gap p"

definition total_width :: "params \<Rightarrow> real" where
  "total_width p = real_of_int (cols p) * horiz_spacing p - h_gap p - 2 * hor_panel_overhang p"

definition total_slope_length :: "params \<Rightarrow> real" where
  "total_slope_length p = real_of_int (rows p) * vert_spacing p - v_gap p"

definition total_ground_length :: "params \<Rightarrow> real" where
  "total_ground_length p = total_slope_length p * cos (angle_rad p)"

definition C_PANEL :: string where "C_PANEL = ''#e0b14b''"
definition C_COLUMN :: string where "C_COLUMN = ''#C44646''"
definition C_PURLIN :: string where "C_PURLIN = ''#379c09''"
definition C_RAFTER :: string where "C_RAFTER = ''#2292DD''"
definition C_BLOCK :: string where "C_BLOCK = ''#00AB8F''"

definition div_y :: "params \<Rightarrow> int" where
  "div_y p = max 1 (y_cols p - 1)"

definition div_x :: "params \<Rightarrow> int" where
  "div_x p = max 1 (x_cols p - 1)"

text \<open>Both divisors are at least 1 (lemmas \<open>div_y_pos\<close>, \<open>div_x_pos\<close> below), so the two
  divisions cannot raise and are written with HOL's division.\<close>

definition y_spacing_ground :: "params \<Rightarrow> real" where
  "y_spacing_ground p =
     (total_ground_length p - (front_offset p + rear_offset p) * cos (angle_rad p))
       / real_of_int (div_y p)"

definition x_spacing :: "params \<Rightarrow> real" where
  "x_spacing p = (if div_x p > 0 then total_width p / real_of_int (div_x p) else 0)"

text \<open>The copies of the structure: the pairs \<open>(i, j)\<close> of the two outer loops, in loop order.\<close>

definition copies :: "params \<Rightarrow> (nat \<times> nat) list" where
  "copies p = concat (map (\<lambda>i. map (\<lambda>j. (i, j)) [0..<nat (copies_in_y p)])
                          [0..<nat (copies_in_x p)])"

section \<open>Columns and blocks\<close>

definition col_cx :: "params \<Rightarrow> nat \<Rightarrow> real" where
  "col_cx p x_i = (if x_cols p > 1 then hor_panel_overhang p + real x_i * x_spacing p - raf_wid p
                   else total_width p / 2)"

definition col_cy :: "params \<Rightarrow> nat \<Rightarrow> real" where
  "col_cy p y_i = front_offset p * cos (angle_rad p) + real y_i * y_spacing_ground p"

definition calculated_height :: "params \<Rightarrow> nat \<Rightarrow> real" where
  "calculated_height p y_i = col_min_height p + col_cy p y_i * tan (angle_rad p)"

definition column_mesh :: "params \<Rightarrow> nat \<Rightarrow> nat \<Rightarrow> nat \<Rightarrow> nat \<Rightarrow> primitive" where
  "column_mesh p i j y_i x_i =
     create_c_section_cq
       (col_cx p x_i + x_gap p * real i, col_cy p y_i + y_gap p * real j,
        calculated_height p y_i / 2)
       (col_len p) (col_wid p) (calculated_height p y_i) (col_thk p) C_COLUMN
       [(0, 0, 1)] [180] ''Column''"

definition block_z_center :: "params \<Rightarrow> real" where
  "block_z_center p = - (blk_heigth p / 2)"

definition block_mesh :: "params \<Rightarrow> nat \<Rightarrow> nat \<Rightarrow> nat \<Rightarrow> nat \<Rightarrow> primitive" where
  "block_mesh p i j y_i x_i =
     create_component_cq
       (col_cx p x_i + x_gap p * real i, col_cy p y_i + y_gap p * real j, block_z_center p)
       (blk_len p) (blk_wid p) (blk_heigth p) C_BLOCK [] [] ''Block''"

text \<open>The meshes appended by the column loop for one copy and by the whole of step 3.\<close>

definition column_block_copy :: "params \<Rightarrow> nat \<Rightarrow> nat \<Rightarrow> primitive list" where
  "column_block_copy p i j =
     concat (map (\<lambda>y_i. concat (map (\<lambda>x_i. [column_mesh p i j y_i x_i, block_mesh p i j y_i x_i])
                                      [0..<nat (x_cols p)]))
                 [0..<nat (y_cols p)])"

definition column_block_meshes :: "params \<Rightarrow> primitive list" where
  "column_block_meshes p = concat (map (\<lambda>(i, j). column_block_copy p i j) (copies p))"

text \<open>\<open>column_y_pos\<close> as it is left by the last copy: one entry per \<open>y_i\<close>.\<close>

definition column_y_pos :: "params \<Rightarrow> real list" where
  "column_y_pos p = map (col_cy p) [0..<nat (y_cols p)]"

definition column_heights :: "params \<Rightarrow> real list" where
  "column_heights p = map (calculated_height p) [0..<nat (y_cols p)]"

section \<open>Rafters\<close>

definition rafter_off :: "params \<Rightarrow> real" where
  "rafter_off p = purlin_offset p - rafter_purlin_offset p"

definition rafter_mid_z :: "params \<Rightarrow> real" where
  "rafter_mid_z p =
     col_min_height p + (total_ground_length p * tan (angle_rad p)) / 2 + raf_len p / 2"

definition rafter_mid_y :: "params \<Rightarrow> real" where
  "rafter_mid_y p =
     (if rafter_off p > 0 then rafter_off p * cos (angle_rad p) else 0)
       + (total_ground_length p - 2 * rafter_off p * cos (angle_rad p)) / 2"

definition rafter_height :: "params \<Rightarrow> real" where
  "rafter_height p = total_slope_length p - 2 * rafter_off p"

definition rafter_rx :: "params \<Rightarrow> nat \<Rightarrow> real" where
  "rafter_rx p x_i = (if x_cols p > 1 then hor_panel_overhang p + real x_i * x_spacing p
                      else total_width p / 2)"

definition rafter_mesh :: "params \<Rightarrow> nat \<Rightarrow> nat \<Rightarrow> nat \<Rightarrow> primitive" where
  "rafter_mesh p i j x_i =
     create_c_section_cq
       (rafter_rx p x_i + x_gap p * real i, rafter_mid_y p + y_gap p * real j, rafter_mid_z p)
       (raf_len p) (raf_wid p) (rafter_height p) (raf_thk p) C_RAFTER
       [(1, 0, 0)] [90 + angle p] ''Rafter''"

definition rafter_meshes :: "params \<Rightarrow> primitive list" where
  "rafter_meshes p =
     concat (map (\<lambda>(i, j). map (rafter_mesh p i j) [0..<nat (x_cols p)]) (copies p))"

text \<open>\<open>rafter_x_nodes\<close> is never reset: every copy appends its \<open>rx\<close> values again.\<close>

definition rafter_x_nodes :: "params \<Rightarrow> real list" where
  "rafter_x_nodes p =
     concat (map (\<lambda>(i, j). map (rafter_rx p) [0..<nat (x_cols p)]) (copies p))"

section \<open>Panels\<close>

definition panel_local_y :: "params \<Rightarrow> nat \<Rightarrow> real" where
  "panel_local_y p r = real r * vert_spacing p + panel_length p / 2"

definition panel_local_x :: "params \<Rightarrow> nat \<Rightarrow> real" where
  "panel_local_x p c = real c * horiz_spacing p + panel_width p / 2"

definition stack_height :: "params \<Rightarrow> real" where
  "stack_height p = raf_len p + pur_len p + (panel_thickness p / 2) + 0.02"

definition panel_name :: "nat \<Rightarrow> nat \<Rightarrow> string" where
  "panel_name r c = ''Panel R'' @ str_int (int r + 1) @ ''C'' @ str_int (int c + 1)"

definition panel_mesh :: "params \<Rightarrow> nat \<Rightarrow> nat \<Rightarrow> nat \<Rightarrow> nat \<Rightarrow> primitive" where
  "panel_mesh p i j c r =
     create_component_cq
       (panel_local_x p c + x_gap p * real i,
        panel_local_y p r * cos (angle_rad p) + y_gap p * real j,
        col_min_height p + (panel_local_y p r * sin (angle_rad p)) + stack_height p)
       (panel_length p) (panel_width p) (panel_thickness p) C_PANEL
       [angle p] [(1, 0, 0)] (panel_name r c)"

definition panel_copy :: "params \<Rightarrow> nat \<Rightarrow> nat \<Rightarrow> primitive list" where
  "panel_copy p i j =
     concat (map (\<lambda>c. map (panel_mesh p i j c) [0..<nat (rows p)]) [0..<nat (cols p)])"

definition panel_meshes :: "params \<Rightarrow> primitive list" where
  "panel_meshes p = concat (map (\<lambda>(i, j). panel_copy p i j) (copies p))"

definition panel_x_coord :: "params \<Rightarrow> nat \<Rightarrow> real" where
  "panel_x_coord p c =
     (if c > 1 then panel_local_x p c - panel_width p / 2 - h_gap p / 2
      else panel_local_x p c - panel_width p / 2)"

text \<open>\<open>x_coords\<close> is never reset either; \<open>panel_x_coords\<close> is its copy after the last
  copy of the structure.\<close>

definition panel_x_coords :: "params \<Rightarrow> real list" where
  "panel_x_coords p =
     concat (map (\<lambda>(i, j). map (panel_x_coord p) [0..<nat (cols p)]) (copies p))"

section \<open>Purlins and the intersection lists\<close>

definition purlin_spacing :: "params \<Rightarrow> real" where
  "purlin_spacing p = (panel_length p - purlin_offset p * 2) * cos (angle_rad p)"

definition pur_y_pos_1 :: "params \<Rightarrow> nat \<Rightarrow> real" where
  "pur_y_pos_1 p row =
     real row * (panel_length p + v_gap p) * cos (angle_rad p)
       + purlin_offset p * cos (angle_rad p)"

definition pur_y_pos_2 :: "params \<Rightarrow> nat \<Rightarrow> real" where
  "pur_y_pos_2 p row = pur_y_pos_1 p row + purlin_spacing p"

definition pur_z_pos_1 :: "params \<Rightarrow> nat \<Rightarrow> real" where
  "pur_z_pos_1 p row = col_min_height p + pur_y_pos_1 p row * tan (angle_rad p) + raf_len p * 1.5"

definition pur_z_pos_2 :: "params \<Rightarrow> nat \<Rightarrow> real" where
  "pur_z_pos_2 p row = col_min_height p + pur_y_pos_2 p row * tan (angle_rad p) + raf_len p * 1.5"

definition purlin_cx :: "params \<Rightarrow> real" where
  "purlin_cx p = hor_panel_overhang p + total_width p / 2"

definition perlin_height :: "params \<Rightarrow> real" where
  "perlin_height p = total_width p + 2 * hor_purlin_overhang p"

text \<open>The purlin request; its centre is \<open>(cx, cy, cz)\<close>, whatever the copy \<open>(i, j)\<close>.\<close>

definition purlin_mesh :: "params \<Rightarrow> real \<Rightarrow> real \<Rightarrow> primitive" where
  "purlin_mesh p cy cz =
     create_c_section_cq (purlin_cx p, cy, cz) (pur_len p) (pur_wid p) (perlin_height p)
       (pur_thk p) C_PURLIN [(0, 1, 0), (1, 0, 0)] [90, angle p + 90] ''Purlin''"

definition purlin_row_meshes :: "params \<Rightarrow> nat \<Rightarrow> primitive list" where
  "purlin_row_meshes p row =
     [purlin_mesh p (pur_y_pos_1 p row) (pur_z_pos_1 p row),
      purlin_mesh p (pur_y_pos_2 p row) (pur_z_pos_2 p row)]"

definition purlin_copy :: "params \<Rightarrow> nat \<Rightarrow> nat \<Rightarrow> primitive list" where
  "purlin_copy p i j = concat (map (purlin_row_meshes p) [0..<nat (rows p)])"

definition purlin_meshes :: "params \<Rightarrow> primitive list" where
  "purlin_meshes p = concat (map (\<lambda>(i, j). purlin_copy p i j) (copies p))"

text \<open>End points, rafter crossings and panel-edge points of the purlin at \<open>(cy, cz)\<close>.\<close>

definition per_points :: "params \<Rightarrow> real \<Rightarrow> real \<Rightarrow> point list" where
  "per_points p cy cz =
     [(purlin_cx p - perlin_height p / 2, cy, cz), (purlin_cx p + perlin_height p / 2, cy, cz)]"

definition per_raf_points :: "params \<Rightarrow> real \<Rightarrow> real \<Rightarrow> point list" where
  "per_raf_points p cy cz = map (\<lambda>x. (x, cy, cz)) (rafter_x_nodes p)"

definition per_pan_points :: "params \<Rightarrow> real \<Rightarrow> real \<Rightarrow> point list" where
  "per_pan_points p cy cz = map (\<lambda>x. (x, cy, cz)) (panel_x_coords p)"

text \<open>The lists of step 5: one entry \<open>[upper, lower]\<close> per copy and row.\<close>

definition copy_rows :: "params \<Rightarrow> nat list" where
  "copy_rows p = concat (map (\<lambda>(i, j). [0..<nat (rows p)]) (copies p))"

definition raf_pur_inter_points :: "params \<Rightarrow> point list list list" where
  "raf_pur_inter_points p =
     map (\<lambda>row. [per_raf_points p (pur_y_pos_1 p row) (pur_z_pos_1 p row),
                  per_raf_points p (pur_y_pos_2 p row) (pur_z_pos_2 p row)]) (copy_rows p)"

definition pur_points :: "params \<Rightarrow> point list list list" where
  "pur_points p =
     map (\<lambda>row. [per_points p (pur_y_pos_1 p row) (pur_z_pos_1 p row),
                  per_points p (pur_y_pos_2 p row) (pur_z_pos_2 p row)]) (copy_rows p)"

definition pur_pan_inter_points :: "params \<Rightarrow> point list list list" where
  "pur_pan_inter_points p =
     map (\<lambda>row. [per_pan_points p (pur_y_pos_1 p row) (pur_z_pos_1 p row),
                  per_pan_points p (pur_y_pos_2 p row) (pur_z_pos_2 p row)]) (copy_rows p)"

text \<open>
  The line \<open>z = m*y + c\<close> of lines 446-447, fitted after the row loop of a copy through
  the first rafter crossing of the last row's upper and lower purlin. The row loop leaves
  \<open>low_per_raf_points\<close> unbound when there is no row, \<open>[0]\<close> raises on an empty list, and the
  quotient raises when the two Y values coincide.
\<close>

definition column_line :: "params \<Rightarrow> py_error + (real \<times> real)" where
  "column_line p =
     (if rows p \<le> 0 then Inl NameError
      else let row = nat (rows p) - 1;
               up_per_raf_points = per_raf_points p (pur_y_pos_1 p row) (pur_z_pos_1 p row);
               low_per_raf_points = per_raf_points p (pur_y_pos_2 p row) (pur_z_pos_2 p row)
           in case (low_per_raf_points, up_per_raf_points) of
                ((lx, ly, lz) # _, (ux, uy, uz) # _) \<Rightarrow>
                  if ly - uy = 0 then Inl ZeroDivisionError
                  else let m = (lz - uz) / (ly - uy); c = lz - m * ly in Inr (m, c)
              | _ \<Rightarrow> Inl IndexError)"

definition column_top_height :: "params \<Rightarrow> real \<Rightarrow> real \<Rightarrow> real list" where
  "column_top_height p m c = map (\<lambda>y. m * y + c) (column_y_pos p)"

text \<open>The segments appended to \<open>column_coords\<close> by one copy: for every entry of
  \<open>rafter_x_nodes\<close> and every column row, the ground point and the point on the line.\<close>

definition column_coords_copy :: "params \<Rightarrow> real \<Rightarrow> real \<Rightarrow> point list list" where
  "column_coords_copy p m c =
     concat (map (\<lambda>x. map (\<lambda>(y, top). [(x, y, 0), (x, y, top)])
                           (zip (column_y_pos p) (column_top_height p m c)))
                 (rafter_x_nodes p))"

definition column_coords :: "params \<Rightarrow> point list list" where
  "column_coords p =
     (case column_line p of
        Inl e \<Rightarrow> []
      | Inr (m, c) \<Rightarrow> concat (map (\<lambda>(i, j). column_coords_copy p m c) (copies p)))"

definition all_fea_nodes :: "params \<Rightarrow> point list" where
  "all_fea_nodes p =
     concat (concat (raf_pur_inter_points p)) @ concat (concat (pur_points p))
       @ concat (concat (pur_pan_inter_points p)) @ concat (column_coords p)"

text \<open>
  What steps 3 to 5 raise before the structural model is built. With at least one copy:
  line 286 reads \<open>calculated_height\<close>, unbound when the inner column loop never ran;
  line 350 reads \<open>local_x\<close>, unbound when the row loop never ran; then the line fit.
\<close>

definition layout_error :: "params \<Rightarrow> py_error option" where
  "layout_error p =
     (if copies p = [] then None
      else if 1 \<le> y_cols p \<and> x_cols p \<le> 0 then Some NameError
      else if 1 \<le> cols p \<and> rows p \<le> 0 then Some NameError
      else case column_line p of Inl e \<Rightarrow> Some e | Inr _ \<Rightarrow> None)"

text \<open>The list \<open>meshes\<close> when step 5 is done and the node trace has been appended.\<close>

definition solid_meshes :: "params \<Rightarrow> primitive list" where
  "solid_meshes p = column_block_meshes p @ rafter_meshes p @ panel_meshes p @ purlin_meshes p"

definition meshes :: "params \<Rightarrow> primitive list" where
  "meshes p = append_node_trace (solid_meshes p) (all_fea_nodes p)"

section \<open>Node and member names\<close>

text \<open>
  \<open>f"{x:.3f}"\<close>: the sign of the value, then its magnitude rounded to three decimals
  (ties to even), the integer part in decimal, a point and three digits. A negative value
  keeps its sign when the rounded magnitude is zero (\<open>-0.000\<close>).
\<close>

definition round_half_even :: "real \<Rightarrow> int" where
  "round_half_even y =
     (let f = \<lfloor>y\<rfloor>; d = y - real_of_int f
      in if d < 1 / 2 then f else if 1 / 2 < d then f + 1 else if even f then f else f + 1)"

definition milli :: "real \<Rightarrow> nat" where
  "milli x = nat (round_half_even (\<bar>x\<bar> * 1000))"

definition fmt3 :: "real \<Rightarrow> string" where
  "fmt3 x =
     (let n = milli x
      in (if x < 0 then [CHR ''-''] else []) @ str_nat (n div 1000) @ [CHR ''.'']
           @ [digit_char (n mod 1000 div 100), digit_char (n mod 100 div 10),
              digit_char (n mod 10)])"

definition node_name :: "point \<Rightarrow> string" where
  "node_name pt = (case pt of (x, y, z) \<Rightarrow> ''N_'' @ fmt3 x @ ''_'' @ fmt3 y @ ''_'' @ fmt3 z)"

definition member_name :: "string \<Rightarrow> string \<Rightarrow> string" where
  "member_name a b = ''M_'' @ a @ ''_'' @ b"

text \<open>The value a coordinate is rounded to: a point's coordinates "after rounding to
  three decimal places".\<close>

definition round3 :: "real \<Rightarrow> real" where
  "round3 x = real_of_int (round_half_even (x * 1000)) / 1000"

section \<open>The structural model\<close>

text \<open>
  \<open>FEModel3D\<close> belongs to the analysis library, not to this repository. The part of its
  interface the code uses is modelled by its contract: nodes and members are kept by name,
  \<open>add_node\<close> raises \<open>NameError\<close> for a name that exists (the purlin loop relies on it:
  "This automatically filters duplicate nodes by name"), and \<open>add_member\<close> raises
  \<open>NameError\<close> for a member name that exists; it looks both end nodes up by name, which
  fails for a name that is not a node (no call of the code gives it one).
\<close>

record member =
  mb_name :: string
  i_node :: string
  j_node :: string
  material_name :: string
  section_name :: string
  rotation :: real

record fe_model =
  fe_nodes :: "(string \<times> point) list"
  fe_members :: "member list"
  fe_materials :: "(string \<times> real \<times> real \<times> real \<times> real) list"
  fe_sections :: "(string \<times> real \<times> real \<times> real \<times> real) list"

definition FEModel3D :: fe_model where
  "FEModel3D = \<lparr>fe_nodes = [], fe_members = [], fe_materials = [], fe_sections = []\<rparr>"

definition node_names_of :: "fe_model \<Rightarrow> string list" where
  "node_names_of model = map fst (fe_nodes model)"

definition add_node :: "fe_model \<Rightarrow> string \<Rightarrow> point \<Rightarrow> py_error + fe_model" where
  "add_node model name pt =
     (if name \<in> set (node_names_of model) then Inl NameError
      else Inr (model\<lparr>fe_nodes := fe_nodes model @ [(name, pt)]\<rparr>))"

definition add_member ::
  "fe_model \<Rightarrow> string \<Rightarrow> string \<Rightarrow> string \<Rightarrow> string \<Rightarrow> string \<Rightarrow> real \<Rightarrow> py_error + fe_model" where
  "add_member model name i j mat sec rot =
     (if name \<in> set (map mb_name (fe_members model)) then Inl NameError
      else if i \<in> set (node_names_of model) \<and> j \<in> set (node_names_of model)
      then Inr (model\<lparr>fe_members := fe_members model
                  @ [\<lparr>mb_name = name, i_node = i, j_node = j, material_name = mat,
                      section_name = sec, rotation = rot\<rparr>]\<rparr>)
      else Inl KeyError)"

definition add_material :: "fe_model \<Rightarrow> string \<Rightarrow> real \<Rightarrow> real \<Rightarrow> real \<Rightarrow> real \<Rightarrow> fe_model" where
  "add_material model name E G nu rho =
     model\<lparr>fe_materials := fe_materials model @ [(name, E, G, nu, rho)]\<rparr>"

definition add_section :: "fe_model \<Rightarrow> string \<Rightarrow> real \<Rightarrow> real \<Rightarrow> real \<Rightarrow> real \<Rightarrow> fe_model" where
  "add_section model name A Iy Iz J =
     model\<lparr>fe_sections := fe_sections model @ [(name, A, Iy, Iz, J)]\<rparr>"

section \<open>Purlin members\<close>

text \<open>
  Lines 540-547: the rafter crossings and the panel-edge points of one purlin, joined and
  ordered by X. \<open>np.array([])\<close> is one-dimensional, so joining it with a list of points
  raises, and taking column 0 of two empty lists joined raises as well. The points of one
  purlin share Y and Z, so points of equal X are equal and every sort gives this list.
\<close>

definition sorted_points :: "point list \<Rightarrow> point list \<Rightarrow> py_error + point list" where
  "sorted_points r_p_points p_p_points =
     (if r_p_points = [] \<and> p_p_points = [] then Inl IndexError
      else if r_p_points = [] \<or> p_p_points = [] then Inl ValueError
      else Inr (sort_key fst (r_p_points @ p_p_points)))"

text \<open>\<open>one_purlin_nodes\<close>: the left end, the sorted points, the right end.\<close>

definition one_purlin_nodes :: "point list \<Rightarrow> point list \<Rightarrow> point list \<Rightarrow> py_error + point list" where
  "one_purlin_nodes ends r_p_points p_p_points =
     (case ends of
        [] \<Rightarrow> Inl IndexError
      | left # ends' \<Rightarrow>
          (case sorted_points r_p_points p_p_points of
             Inl e \<Rightarrow> Inl e
           | Inr pts \<Rightarrow>
               (case ends' of
                  [] \<Rightarrow> Inl IndexError
                | right # _ \<Rightarrow> Inr (left # pts @ [right]))))"

text \<open>
  Lines 556-566: every point is named and added; when \<open>add_node\<close> raises, the bare
  \<open>except\<close> drops the point and its name is not recorded.
\<close>

fun register_nodes :: "fe_model \<Rightarrow> string list \<Rightarrow> point list \<Rightarrow> fe_model \<times> string list" where
  "register_nodes model node_names [] = (model, node_names)"
| "register_nodes model node_names (pt # pts) =
     (case add_node model (node_name pt) pt of
        Inl e \<Rightarrow> register_nodes model node_names pts
      | Inr model' \<Rightarrow> register_nodes model' (node_names @ [node_name pt]) pts)"

text \<open>Lines 569-579 and 628-638: one member between every two consecutive names.\<close>

fun add_members ::
  "fe_model \<Rightarrow> string \<Rightarrow> string \<Rightarrow> real \<Rightarrow> string list \<Rightarrow> py_error + fe_model" where
  "add_members model mat sec rot (a # b # names) =
     (case add_member model (member_name a b) a b mat sec rot of
        Inl e \<Rightarrow> Inl e
      | Inr model' \<Rightarrow> add_members model' mat sec rot (b # names))"
| "add_members model mat sec rot names = Inr model"

definition purlin_angle :: "params \<Rightarrow> real" where
  "purlin_angle p = angle p + 90"

text \<open>The body of the purlin loop for purlin \<open>(i, j)\<close>; it returns the model and the list
  \<open>node_names\<close> it leaves behind.\<close>

definition build_purlin ::
  "params \<Rightarrow> fe_model \<Rightarrow> nat \<Rightarrow> nat \<Rightarrow> py_error + (fe_model \<times> string list)" where
  "build_purlin p model i j =
     (case one_purlin_nodes (pur_points p ! i ! j) (raf_pur_inter_points p ! i ! j)
             (pur_pan_inter_points p ! i ! j) of
        Inl e \<Rightarrow> Inl e
      | Inr nodes \<Rightarrow>
          (case register_nodes model [] nodes of
             (model', node_names) \<Rightarrow>
               (case add_members model' ''purlin_mat'' ''purlin_sec'' (purlin_angle p)
                       node_names of
                  Inl e \<Rightarrow> Inl e
                | Inr model'' \<Rightarrow> Inr (model'', node_names))))"

text \<open>The index pairs of the purlin loop, and the loop: the state is the model and
  \<open>node_names\<close>, which is unbound (\<open>None\<close>) until the body has run once.\<close>

definition purlin_indices :: "params \<Rightarrow> (nat \<times> nat) list" where
  "purlin_indices p =
     concat (map (\<lambda>i. map (\<lambda>j. (i, j)) [0..<length (pur_points p ! i)])
                 [0..<length (pur_points p)])"

fun build_purlins ::
  "params \<Rightarrow> fe_model \<times> string list option \<Rightarrow> (nat \<times> nat) list
     \<Rightarrow> py_error + (fe_model \<times> string list option)" where
  "build_purlins p st [] = Inr st"
| "build_purlins p (model, names) ((i, j) # ijs) =
     (case build_purlin p model i j of
        Inl e \<Rightarrow> Inl e
      | Inr (model', node_names) \<Rightarrow> build_purlins p (model', Some node_names) ijs)"

definition E_steel :: real where "E_steel = 29000"
definition nu_steel :: real where "nu_steel = 0.3"
definition G_steel :: real where "G_steel = E_steel / (2 * (1 + nu_steel))"
definition rho_steel :: real where "rho_steel = 0.49 / (12 ^ 3)"

definition purlin_stage :: "params \<Rightarrow> py_error + (fe_model \<times> string list option)" where
  "purlin_stage p =
     build_purlins p
       (add_section (add_material FEModel3D ''purlin_mat'' E_steel G_steel nu_steel rho_steel)
          ''purlin_sec'' 10.3 15.3 510 0.506, None)
       (purlin_indices p)"

section \<open>Rafter members\<close>

text \<open>Lines 603-611: the points collected for rafter \<open>i\<close> from the crossings, whose names
  go to \<open>one_rafter_names\<close>; nothing is added to the model here.\<close>

definition rafter_crossings :: "params \<Rightarrow> nat \<Rightarrow> point list" where
  "rafter_crossings p i =
     concat (map (\<lambda>j. map (\<lambda>k. raf_pur_inter_points p ! j ! k ! i) [0..<2])
                 [0..<length (raf_pur_inter_points p)])"

text \<open>Lines 613-621: \<open>column_coords[i][c]\<close> for every \<open>c\<close> below \<open>y_cols_count\<close> is named
  and added to the model, with no \<open>try\<close> around \<open>add_node\<close>.\<close>

fun add_column_nodes ::
  "params \<Rightarrow> fe_model \<Rightarrow> nat \<Rightarrow> nat list \<Rightarrow> py_error + (fe_model \<times> point list)" where
  "add_column_nodes p model i [] = Inr (model, [])"
| "add_column_nodes p model i (c # cs) =
     (if length (column_coords p) \<le> i then Inl IndexError
      else if length (column_coords p ! i) \<le> c then Inl IndexError
      else let column_node = column_coords p ! i ! c
           in case add_node model (node_name column_node) column_node of
                Inl e \<Rightarrow> Inl e
              | Inr model' \<Rightarrow>
                  (case add_column_nodes p model' i cs of
                     Inl e \<Rightarrow> Inl e
                   | Inr (model'', nodes) \<Rightarrow> Inr (model'', column_node # nodes)))"

definition rafter_angle :: real where
  "rafter_angle = 0"

text \<open>
  The body of the rafter loop for rafter \<open>i\<close>. \<open>one_rafter_nodes\<close> and \<open>one_rafter_names\<close>
  are collected; the member loop of lines 628-638 then runs over \<open>node_names\<close>, the
  variable the purlin loop left behind (unbound when that loop never ran its body).
  The result carries \<open>one_rafter_nodes\<close> beside the model.
\<close>

definition build_rafter ::
  "params \<Rightarrow> string list option \<Rightarrow> fe_model \<Rightarrow> nat \<Rightarrow> py_error + (fe_model \<times> point list)" where
  "build_rafter p node_names model i =
     (case add_column_nodes p model i [0..<nat (y_cols p)] of
        Inl e \<Rightarrow> Inl e
      | Inr (model', column_nodes) \<Rightarrow>
          (case node_names of
             None \<Rightarrow> Inl NameError
           | Some names \<Rightarrow>
               (case add_members model' ''rafter_mat'' ''rafter_sec'' rafter_angle names of
                  Inl e \<Rightarrow> Inl e
                | Inr model'' \<Rightarrow> Inr (model'', rafter_crossings p i @ column_nodes))))"

fun build_rafters ::
  "params \<Rightarrow> string list option \<Rightarrow> fe_model \<Rightarrow> nat list \<Rightarrow> py_error + fe_model" where
  "build_rafters p node_names model [] = Inr model"
| "build_rafters p node_names model (i # is) =
     (case build_rafter p node_names model i of
        Inl e \<Rightarrow> Inl e
      | Inr (model', one_rafter_nodes) \<Rightarrow> build_rafters p node_names model' is)"

definition rafter_stage :: "params \<Rightarrow> fe_model \<times> string list option \<Rightarrow> py_error + fe_model" where
  "rafter_stage p st =
     (case st of (model, node_names) \<Rightarrow>
        build_rafters p node_names
          (add_section (add_material model ''rafter_mat'' E_steel G_steel nu_steel rho_steel)
             ''rafter_sec'' 10.3 15.3 510 0.506)
          [0..<nat (x_cols p)])"

text \<open>The structural model \<open>generate_structure\<close> has built when it returns.\<close>

definition build_model :: "params \<Rightarrow> py_error + fe_model" where
  "build_model p =
     (case purlin_stage p of
        Inl e \<Rightarrow> Inl e
      | Inr st \<Rightarrow> rafter_stage p st)"

section \<open>The generator\<close>

definition generate_structure :: "params \<Rightarrow> py_error + (primitive list \<times> point list)" where
  "generate_structure p =
     (case layout_error p of
        Some e \<Rightarrow> Inl e
      | None \<Rightarrow>
          (case build_model p of
             Inl e \<Rightarrow> Inl e
           | Inr model \<Rightarrow> Inr (meshes p, all_fea_nodes p)))"

section \<open>Notions used by the properties\<close>

text \<open>A panel request is recognised by its name, \<open>f"Panel R{r+1}C{c+1}"\<close>.\<close>

definition is_panel :: "primitive \<Rightarrow> bool" where
  "is_panel pr = (case pr of Mesh3d m \<Rightarrow> take 5 (m_name m) = ''Panel'' | Scatter3d s \<Rightarrow> False)"

definition center_of :: "primitive \<Rightarrow> point" where
  "center_of pr = (case pr of Mesh3d m \<Rightarrow> m_center m | Scatter3d s \<Rightarrow> (0, 0, 0))"

definition px :: "point \<Rightarrow> real" where "px pt = fst pt"
definition py :: "point \<Rightarrow> real" where "py pt = fst (snd pt)"




text \<open>The markers of a trace, as points.\<close>

definition markers :: "scatter \<Rightarrow> point list" where
  "markers s = zip (s_x s) (zip (s_y s) (s_z s))"

text \<open>
  The dashboard's default input with the tilt set to 0 degrees and one row of one panel:
  two support columns along each axis and a single copy.
\<close>

definition base_params :: params where
  "base_params = \<lparr>panel_length = 1.7, panel_width = 1, panel_thickness = 0.04, angle = 0,
     rows = 1, cols = 1, front_offset = 0.3, rear_offset = 0.3, purlin_offset = 0.3,
     rafter_purlin_offset = 0.2, hor_panel_overhang = 0.2, hor_purlin_overhang = 0.2,
     h_gap = 0.02, v_gap = 0.02, col_min_height = 2, col_len = 0.15, col_wid = 0.15,
     col_thk = 0.01, raf_len = 0.15, raf_wid = 0.15, raf_thk = 0.01, pur_len = 0.15,
     pur_wid = 0.15, pur_thk = 0.01, blk_len = 1, blk_wid = 1, blk_heigth = 1,
     y_cols = 2, x_cols = 2, copies_in_x = 1, x_gap = 20, copies_in_y = 1, y_gap = 20\<rparr>"

text \<open>Two copies along X, 20 apart, with one support column along the width and the
  columns moved off the purlin lines.\<close>

definition two_copies :: params where
  "two_copies = base_params\<lparr>copies_in_x := 2, x_cols := 1, front_offset := 0.4\<rparr>"

text \<open>A purlin overhang smaller than the panel overhang: the purlin ends inside the
  panel field.\<close>

definition short_purlin :: params where
  "short_purlin = base_params\<lparr>hor_purlin_overhang := 0.1\<rparr>"

text \<open>The dashboard's default offsets but for the front column offset: the columns stand
  off the purlin lines, in a single copy.\<close>

definition columns_off :: params where
  "columns_off = base_params\<lparr>front_offset := 0.4\<rparr>"

text \<open>What a run leaves behind: \<open>node_names\<close> after the purlin loop, and the node names
  and the members (end nodes and section) of the model that has been built.\<close>

definition purlin_names :: "params \<Rightarrow> py_error + string list option" where
  "purlin_names p =
     (case purlin_stage p of Inl e \<Rightarrow> Inl e | Inr (model, node_names) \<Rightarrow> Inr node_names)"

definition built_nodes :: "params \<Rightarrow> py_error + string list" where
  "built_nodes p =
     (case build_model p of Inl e \<Rightarrow> Inl e | Inr model \<Rightarrow> Inr (node_names_of model))"

definition built_members :: "params \<Rightarrow> py_error + (string \<times> string \<times> string) list" where
  "built_members p =
     (case build_model p of
        Inl e \<Rightarrow> Inl e
      | Inr model \<Rightarrow> Inr (map (\<lambda>m. (i_node m, j_node m, section_name m)) (fe_members model)))"

text \<open>The member a chain of names puts between two consecutive names.\<close>

definition chain_member :: "string \<Rightarrow> string \<Rightarrow> real \<Rightarrow> string \<times> string \<Rightarrow> member" where
  "chain_member mat sec rot ab =
     (case ab of (a, b) \<Rightarrow>
        \<lparr>mb_name = member_name a b, i_node = a, j_node = b, material_name = mat,
         section_name = sec, rotation = rot\<rparr>)"

definition purlin_members :: "params \<Rightarrow> py_error + (string \<times> string) list" where
  "purlin_members p =
     (case purlin_stage p of
        Inl e \<Rightarrow> Inl e
      | Inr (model, node_names) \<Rightarrow> Inr (map (\<lambda>m. (i_node m, j_node m)) (fe_members model)))"

text \<open>The model handed to the rafter loop: the purlin model with the rafter material and
  section added.\<close>

definition rafter_model :: "fe_model \<Rightarrow> fe_model" where
  "rafter_model model =
     add_section (add_material model ''rafter_mat'' E_steel G_steel nu_steel rho_steel)
       ''rafter_sec'' 10.3 15.3 510 0.506"

text \<open>Two facts about a model and the list \<open>node_names\<close>: every two consecutive names
  already have their member in the model, and every member of the model is a purlin
  member.\<close>

definition chain_built :: "fe_model \<Rightarrow> string list option \<Rightarrow> bool" where
  "chain_built model node_names =
     (case node_names of
        None \<Rightarrow> True
      | Some names \<Rightarrow>
          list_all (\<lambda>ab. member_name (fst ab) (snd ab) \<in> set (map mb_name (fe_members model)))
            (zip names (tl names)))"

definition only_purlin_members :: "fe_model \<Rightarrow> bool" where
  "only_purlin_members model = list_all (\<lambda>m. section_name m = ''purlin_sec'') (fe_members model)"

section \<open>Properties\<close>

subsection \<open>Lists built by nested loops\<close>

lemma length_concat_map_const:
  "(\<And>x. x \<in> set xs \<Longrightarrow> length (f x) = n) \<Longrightarrow> length (concat (map f xs)) = length xs * n"
  by (induction xs) auto

lemma filter_concat_map_none:
  "(\<And>x. x \<in> set xs \<Longrightarrow> filter P (f x) = []) \<Longrightarrow> filter P (concat (map f xs)) = []"
  by (induction xs) auto

lemma filter_concat_map_all:
  "(\<And>x. x \<in> set xs \<Longrightarrow> filter P (f x) = f x) \<Longrightarrow>
   filter P (concat (map f xs)) = concat (map f xs)"
  by (induction xs) auto

lemma length_copies: "length (copies p) = nat (copies_in_x p) * nat (copies_in_y p)"
  unfolding copies_def by (subst length_concat_map_const [where n = "nat (copies_in_y p)"]) auto

subsection \<open>The number of panels\<close>

lemma is_panel_panel_mesh: "is_panel (panel_mesh p i j c r)"
  by (simp add: is_panel_def panel_mesh_def create_component_cq_def panel_name_def)

lemma not_panel_others:
  "\<not> is_panel (column_mesh p i j y_i x_i)" "\<not> is_panel (block_mesh p i j y_i x_i)"
  "\<not> is_panel (rafter_mesh p i j x_i)" "\<not> is_panel (purlin_mesh p cy cz)"
  by (simp_all add: is_panel_def column_mesh_def block_mesh_def rafter_mesh_def purlin_mesh_def
      create_component_cq_def create_c_section_cq_def)

lemma filter_panel_column_block: "filter is_panel (column_block_meshes p) = []"
  unfolding column_block_meshes_def column_block_copy_def
  by (intro filter_concat_map_none) (auto simp: not_panel_others)

lemma filter_panel_rafter: "filter is_panel (rafter_meshes p) = []"
  unfolding rafter_meshes_def
  by (intro filter_concat_map_none) (auto simp: not_panel_others filter_empty_conv)

lemma filter_panel_purlin: "filter is_panel (purlin_meshes p) = []"
  unfolding purlin_meshes_def purlin_copy_def purlin_row_meshes_def
  by (intro filter_concat_map_none) (auto simp: not_panel_others)

lemma filter_panel_panel: "filter is_panel (panel_meshes p) = panel_meshes p"
  unfolding panel_meshes_def panel_copy_def
  by (intro filter_concat_map_all) (auto simp: is_panel_panel_mesh filter_id_conv)

lemma length_panel_copy: "length (panel_copy p i j) = nat (cols p) * nat (rows p)"
  unfolding panel_copy_def by (subst length_concat_map_const [where n = "nat (rows p)"]) auto

lemma length_panel_meshes:
  "length (panel_meshes p) = nat (copies_in_x p) * nat (copies_in_y p) * (nat (cols p) * nat (rows p))"
  unfolding panel_meshes_def
  by (subst length_concat_map_const [where n = "nat (cols p) * nat (rows p)"])
     (auto simp: length_panel_copy length_copies)

lemma filter_panel_node_trace:
  "filter is_panel (append_node_trace ms pts) = filter is_panel ms"
  by (simp add: append_node_trace_def create_nodes_plotly_def is_panel_def)

lemma generate_structure_returns:
  "generate_structure p = Inr (ms, nodes) \<Longrightarrow> ms = meshes p \<and> nodes = all_fea_nodes p"
  by (auto simp: generate_structure_def split: option.splits sum.splits)

text \<open>
  Claim C6. The list \<open>meshes\<close> that one call of \<open>generate_structure\<close> builds, and the list
  the call returns when it returns, hold as many panel requests as the product of the
  rows, the columns and the copies along X and along Y; the counts are those of the loops,
  so a count below zero contributes no iteration.
\<close>

theorem panel_count:
  "length (filter is_panel (meshes p)) =
     nat (rows p) * nat (cols p) * nat (copies_in_x p) * nat (copies_in_y p)
   \<and> (generate_structure p = Inr (ms, nodes) \<longrightarrow>
        length (filter is_panel ms) =
          nat (rows p) * nat (cols p) * nat (copies_in_x p) * nat (copies_in_y p))"
proof -
  have "length (filter is_panel (meshes p)) =
     nat (rows p) * nat (cols p) * nat (copies_in_x p) * nat (copies_in_y p)"
    by (simp add: meshes_def solid_meshes_def filter_panel_node_trace filter_panel_column_block
        filter_panel_rafter filter_panel_purlin filter_panel_panel length_panel_meshes)
  then show ?thesis
    by (auto dest: generate_structure_returns)
qed

subsection \<open>A single support column along the width\<close>

lemma div_x_pos: "1 \<le> div_x p"
  by (simp add: div_x_def)


lemma x_spacing_eq: "x_spacing p = total_width p / real_of_int (div_x p)"
  using div_x_pos [of p] by (simp add: x_spacing_def)



subsection \<open>Ground blocks\<close>



subsection \<open>The node trace\<close>

text \<open>
  Claim C10. \<open>create_nodes_plotly\<close> returns \<open>None\<close> for the empty list, and then nothing is
  appended to \<open>meshes\<close>; for a list that is not empty it returns one trace whose markers
  are the points of the list, one for each and in the same order, and that trace is
  appended.
\<close>

theorem node_trace_of_points:
  "create_nodes_plotly [] = None \<and> append_node_trace ms [] = ms
   \<and> (pts \<noteq> [] \<longrightarrow>
        (\<exists>s. create_nodes_plotly pts = Some s \<and> markers s = pts
           \<and> length (s_x s) = length pts \<and> length (s_y s) = length pts
           \<and> length (s_z s) = length pts
           \<and> append_node_trace ms pts = ms @ [Scatter3d s]))"
  by (auto simp: create_nodes_plotly_def append_node_trace_def markers_def
      intro!: nth_equalityI)

theorem node_trace_of_points_witness:
  "[(1, 2, 3), (4, 5, 6)] \<noteq> ([] :: point list)
   \<and> (\<exists>s. create_nodes_plotly [(1, 2, 3), (4, 5, 6)] = Some s
         \<and> markers s = [(1, 2, 3), (4, 5, 6)]
         \<and> append_node_trace [] [(1, 2, 3), (4, 5, 6)] = [Scatter3d s])"
  using node_trace_of_points [of "[]" "[(1, 2, 3), (4, 5, 6)]"]
  by auto

subsection \<open>Evaluation at the concrete inputs\<close>

lemmas dimension_defs = angle_rad_def horiz_spacing_def vert_spacing_def total_width_def
  total_slope_length_def total_ground_length_def div_x_def div_y_def y_spacing_ground_def
  x_spacing_def copies_def col_cx_def col_cy_def calculated_height_def rafter_rx_def
  panel_local_x_def panel_x_coord_def purlin_spacing_def pur_y_pos_1_def pur_y_pos_2_def
  pur_z_pos_1_def pur_z_pos_2_def purlin_cx_def perlin_height_def

lemmas list_defs = rafter_x_nodes_def panel_x_coords_def pur_points_def per_points_def
  copy_rows_def raf_pur_inter_points_def pur_pan_inter_points_def per_raf_points_def
  per_pan_points_def column_line_def column_coords_def column_coords_copy_def
  column_top_height_def column_y_pos_def

lemma milli_vals:
  "milli 0 = 0" "milli (1/10) = 100" "milli (1/5) = 200" "milli (3/10) = 300"
  "milli (2/5) = 400" "milli (4/5) = 800" "milli (9/10) = 900" "milli 1 = 1000"
  "milli (7/5) = 1400" "milli (89/40) = 2225"
  by (simp_all add: milli_def round_half_even_def Let_def)

lemma fmt3_vals:
  "fmt3 0 = ''0.000''" "fmt3 (1/10) = ''0.100''" "fmt3 (1/5) = ''0.200''"
  "fmt3 (3/10) = ''0.300''" "fmt3 (2/5) = ''0.400''" "fmt3 (4/5) = ''0.800''"
  "fmt3 (9/10) = ''0.900''" "fmt3 1 = ''1.000''" "fmt3 (7/5) = ''1.400''"
  "fmt3 (89/40) = ''2.225''"
  by (simp_all add: fmt3_def milli_vals str_nat.simps digit_char_def)

lemmas model_defs = add_section_def add_material_def FEModel3D_def add_node_def
  node_names_of_def
  node_name_def fmt3_vals add_member_def member_name_def one_purlin_nodes_def
  sorted_points_def build_purlin_def purlin_angle_def E_steel_def G_steel_def nu_steel_def
  rho_steel_def rafter_angle_def rafter_model_def

lemma fields_two_copies:
  "angle two_copies = 0" "y_cols two_copies = 2" "x_cols two_copies = 1"
  "x_gap two_copies = 20"
  by (simp_all add: two_copies_def base_params_def)

lemma fields_base_params:
  "angle base_params = 0" "y_cols base_params = 2" "x_cols base_params = 2"
  by (simp_all add: base_params_def)

lemma fields_columns_off:
  "angle columns_off = 0" "y_cols columns_off = 2" "x_cols columns_off = 2"
  by (simp_all add: columns_off_def base_params_def)

lemma fields_short_purlin:
  "angle short_purlin = 0" "y_cols short_purlin = 2" "x_cols short_purlin = 2"
  by (simp_all add: short_purlin_def base_params_def)

lemma lists_two_copies:
  "pur_points two_copies =
     [[[(0, 3/10, 89/40), (1, 3/10, 89/40)], [(0, 7/5, 89/40), (1, 7/5, 89/40)]],
      [[(0, 3/10, 89/40), (1, 3/10, 89/40)], [(0, 7/5, 89/40), (1, 7/5, 89/40)]]]"
  "raf_pur_inter_points two_copies =
     [[[(3/10, 3/10, 89/40), (3/10, 3/10, 89/40)], [(3/10, 7/5, 89/40), (3/10, 7/5, 89/40)]],
      [[(3/10, 3/10, 89/40), (3/10, 3/10, 89/40)], [(3/10, 7/5, 89/40), (3/10, 7/5, 89/40)]]]"
  "pur_pan_inter_points two_copies =
     [[[(0, 3/10, 89/40), (0, 3/10, 89/40)], [(0, 7/5, 89/40), (0, 7/5, 89/40)]],
      [[(0, 3/10, 89/40), (0, 3/10, 89/40)], [(0, 7/5, 89/40), (0, 7/5, 89/40)]]]"
  "column_line two_copies = Inr (0, 89/40)"
  by (simp_all add: list_defs dimension_defs two_copies_def base_params_def upt_rec)

lemma column_coords_two_copies:
  "column_coords two_copies =
     [[(3/10, 2/5, 0), (3/10, 2/5, 89/40)], [(3/10, 7/5, 0), (3/10, 7/5, 89/40)],
      [(3/10, 2/5, 0), (3/10, 2/5, 89/40)], [(3/10, 7/5, 0), (3/10, 7/5, 89/40)],
      [(3/10, 2/5, 0), (3/10, 2/5, 89/40)], [(3/10, 7/5, 0), (3/10, 7/5, 89/40)],
      [(3/10, 2/5, 0), (3/10, 2/5, 89/40)], [(3/10, 7/5, 0), (3/10, 7/5, 89/40)]]"
  by (simp add: list_defs dimension_defs two_copies_def base_params_def upt_rec)

lemma lists_base_params:
  "pur_points base_params =
     [[[(0, 3/10, 89/40), (1, 3/10, 89/40)], [(0, 7/5, 89/40), (1, 7/5, 89/40)]]]"
  "raf_pur_inter_points base_params =
     [[[(1/5, 3/10, 89/40), (4/5, 3/10, 89/40)], [(1/5, 7/5, 89/40), (4/5, 7/5, 89/40)]]]"
  "pur_pan_inter_points base_params = [[[(0, 3/10, 89/40)], [(0, 7/5, 89/40)]]]"
  "column_line base_params = Inr (0, 89/40)"
  "column_coords base_params =
     [[(1/5, 3/10, 0), (1/5, 3/10, 89/40)], [(1/5, 7/5, 0), (1/5, 7/5, 89/40)],
      [(4/5, 3/10, 0), (4/5, 3/10, 89/40)], [(4/5, 7/5, 0), (4/5, 7/5, 89/40)]]"
  by (simp_all add: list_defs dimension_defs base_params_def upt_rec)

lemma lists_columns_off:
  "pur_points columns_off =
     [[[(0, 3/10, 89/40), (1, 3/10, 89/40)], [(0, 7/5, 89/40), (1, 7/5, 89/40)]]]"
  "raf_pur_inter_points columns_off =
     [[[(1/5, 3/10, 89/40), (4/5, 3/10, 89/40)], [(1/5, 7/5, 89/40), (4/5, 7/5, 89/40)]]]"
  "pur_pan_inter_points columns_off = [[[(0, 3/10, 89/40)], [(0, 7/5, 89/40)]]]"
  "column_line columns_off = Inr (0, 89/40)"
  "column_coords columns_off =
     [[(1/5, 2/5, 0), (1/5, 2/5, 89/40)], [(1/5, 7/5, 0), (1/5, 7/5, 89/40)],
      [(4/5, 2/5, 0), (4/5, 2/5, 89/40)], [(4/5, 7/5, 0), (4/5, 7/5, 89/40)]]"
  by (simp_all add: list_defs dimension_defs columns_off_def base_params_def upt_rec)

lemma lists_short_purlin:
  "pur_points short_purlin =
     [[[(1/10, 3/10, 89/40), (9/10, 3/10, 89/40)], [(1/10, 7/5, 89/40), (9/10, 7/5, 89/40)]]]"
  "raf_pur_inter_points short_purlin =
     [[[(1/5, 3/10, 89/40), (4/5, 3/10, 89/40)], [(1/5, 7/5, 89/40), (4/5, 7/5, 89/40)]]]"
  "pur_pan_inter_points short_purlin = [[[(0, 3/10, 89/40)], [(0, 7/5, 89/40)]]]"
  by (simp_all add: list_defs dimension_defs short_purlin_def base_params_def upt_rec)

lemma purlin_indices_vals:
  "purlin_indices two_copies = [(0, 0), (0, 1), (1, 0), (1, 1)]"
  "purlin_indices base_params = [(0, 0), (0, 1)]"
  "purlin_indices columns_off = [(0, 0), (0, 1)]"
  "purlin_indices short_purlin = [(0, 0), (0, 1)]"
  by (simp_all add: purlin_indices_def lists_two_copies lists_base_params lists_columns_off
      lists_short_purlin upt_rec)

lemma layout_error_vals:
  "layout_error two_copies = None" "layout_error base_params = None"
  by (simp_all add: layout_error_def lists_two_copies lists_base_params)
     (simp_all add: two_copies_def base_params_def copies_def upt_rec)

lemma build_two_copies:
  "\<exists>model. build_model two_copies = Inr model
     \<and> node_names_of model =
         [''N_0.000_0.300_2.225'', ''N_0.300_0.300_2.225'', ''N_1.000_0.300_2.225'',
          ''N_0.000_1.400_2.225'', ''N_0.300_1.400_2.225'', ''N_1.000_1.400_2.225'',
          ''N_0.300_0.400_0.000'', ''N_0.300_0.400_2.225'']
     \<and> map (\<lambda>m. (i_node m, j_node m, section_name m)) (fe_members model) =
         [(''N_0.000_0.300_2.225'', ''N_0.300_0.300_2.225'', ''purlin_sec''),
          (''N_0.300_0.300_2.225'', ''N_1.000_0.300_2.225'', ''purlin_sec''),
          (''N_0.000_1.400_2.225'', ''N_0.300_1.400_2.225'', ''purlin_sec''),
          (''N_0.300_1.400_2.225'', ''N_1.000_1.400_2.225'', ''purlin_sec'')]"
  by (simp add: build_model_def purlin_stage_def rafter_stage_def build_rafter_def
      purlin_indices_vals lists_two_copies column_coords_two_copies fields_two_copies
      model_defs
      upt_rec Let_def)

lemma purlin_names_two_copies: "purlin_names two_copies = Inr (Some [])"
  by (simp add: purlin_names_def purlin_stage_def purlin_indices_vals lists_two_copies
      fields_two_copies model_defs)

lemma generate_two_copies:
  "generate_structure two_copies = Inr (meshes two_copies, all_fea_nodes two_copies)"
proof -
  from build_two_copies obtain model where "build_model two_copies = Inr model" by blast
  then show ?thesis
    by (simp add: generate_structure_def layout_error_vals)
qed

text \<open>The count of C6 at an input where the call returns: two copies of one panel.\<close>

theorem panel_count_witness:
  "generate_structure two_copies = Inr (meshes two_copies, all_fea_nodes two_copies)
   \<and> length (filter is_panel (meshes two_copies)) = 2
   \<and> nat (rows two_copies) * nat (cols two_copies) * nat (copies_in_x two_copies)
       * nat (copies_in_y two_copies) = 2"
  using panel_count [of two_copies "meshes two_copies" "all_fea_nodes two_copies"]
    generate_two_copies
  by (simp add: two_copies_def base_params_def)

lemma built_nodes_two_copies:
  "built_nodes two_copies =
       Inr [''N_0.000_0.300_2.225'', ''N_0.300_0.300_2.225'', ''N_1.000_0.300_2.225'',
            ''N_0.000_1.400_2.225'', ''N_0.300_1.400_2.225'', ''N_1.000_1.400_2.225'',
            ''N_0.300_0.400_0.000'', ''N_0.300_0.400_2.225'']"
  by (simp add: built_nodes_def build_model_def purlin_stage_def rafter_stage_def
      build_rafter_def purlin_indices_vals lists_two_copies column_coords_two_copies
      fields_two_copies model_defs upt_rec Let_def)

lemma built_members_two_copies:
  "built_members two_copies =
       Inr [(''N_0.000_0.300_2.225'', ''N_0.300_0.300_2.225'', ''purlin_sec''),
            (''N_0.300_0.300_2.225'', ''N_1.000_0.300_2.225'', ''purlin_sec''),
            (''N_0.000_1.400_2.225'', ''N_0.300_1.400_2.225'', ''purlin_sec''),
            (''N_0.300_1.400_2.225'', ''N_1.000_1.400_2.225'', ''purlin_sec'')]"
  by (simp add: built_members_def build_model_def purlin_stage_def rafter_stage_def
      build_rafter_def purlin_indices_vals lists_two_copies column_coords_two_copies
      fields_two_copies model_defs upt_rec Let_def)

lemma first_column_two_copies:
  "column_coords two_copies ! 0 = [(3/10, 2/5, 0), (3/10, 2/5, 89/40)]"
  "map node_name (column_coords two_copies ! 0)
       = [''N_0.300_0.400_0.000'', ''N_0.300_0.400_2.225'']"
  by (simp_all add: column_coords_two_copies node_name_def fmt3_vals)

subsection \<open>Node registration and member chains\<close>

lemma add_node_cases:
  "add_node model name pt = Inl e \<Longrightarrow> name \<in> set (node_names_of model) \<and> e = NameError"
  "add_node model name pt = Inr model' \<Longrightarrow>
     name \<notin> set (node_names_of model) \<and> node_names_of model' = node_names_of model @ [name]
     \<and> fe_members model' = fe_members model"
  by (auto simp: add_node_def node_names_of_def split: if_splits)

lemma register_nodes_acc:
  "register_nodes model acc pts = (model', names) \<Longrightarrow>
   \<exists>new. names = acc @ new \<and> node_names_of model' = node_names_of model @ new
     \<and> distinct new \<and> set new = node_name ` set pts - set (node_names_of model)
     \<and> fe_members model' = fe_members model"
proof (induction pts arbitrary: model acc)
  case Nil
  then show ?case by simp
next
  case (Cons pt pts)
  show ?case
  proof (cases "add_node model (node_name pt) pt")
    case (Inl e)
    with Cons.prems have "register_nodes model acc pts = (model', names)" by simp
    from Cons.IH [OF this] obtain new where new: "names = acc @ new"
      "node_names_of model' = node_names_of model @ new" "distinct new"
      "set new = node_name ` set pts - set (node_names_of model)"
      "fe_members model' = fe_members model" by blast
    from add_node_cases(1) [OF Inl] have "node_name pt \<in> set (node_names_of model)" by simp
    with new show ?thesis by auto
  next
    case (Inr model1)
    with Cons.prems have "register_nodes model1 (acc @ [node_name pt]) pts = (model', names)"
      by simp
    from Cons.IH [OF this] obtain new where new: "names = (acc @ [node_name pt]) @ new"
      "node_names_of model' = node_names_of model1 @ new" "distinct new"
      "set new = node_name ` set pts - set (node_names_of model1)"
      "fe_members model' = fe_members model1" by blast
    from add_node_cases(2) [OF Inr] have m1: "node_name pt \<notin> set (node_names_of model)"
      "node_names_of model1 = node_names_of model @ [node_name pt]"
      "fe_members model1 = fe_members model" by simp_all
    have "names = acc @ (node_name pt # new)" using new(1) by simp
    moreover have "node_names_of model' = node_names_of model @ (node_name pt # new)"
      using new(2) m1(2) by simp
    moreover have "distinct (node_name pt # new)" using new(3,4) m1(2) by auto
    moreover have "set (node_name pt # new) = node_name ` set (pt # pts) - set (node_names_of model)"
      using new(4) m1(1,2) by auto
    moreover have "fe_members model' = fe_members model" using new(5) m1(3) by simp
    ultimately show ?thesis by blast
  qed
qed

lemma add_members_short: "length names < 2 \<Longrightarrow> add_members model mat sec rot names = Inr model"
proof (cases names)
  case Nil
  then show ?thesis by simp
next
  case (Cons x xs)
  assume "length names < 2"
  with Cons have "xs = []" by simp
  with Cons show ?thesis by simp
qed

lemma add_members_Inr:
  "add_members model mat sec rot names = Inr model' \<Longrightarrow>
     fe_members model' = fe_members model @ map (chain_member mat sec rot) (zip names (tl names))
     \<and> fe_nodes model' = fe_nodes model"
proof (induction model mat sec rot names rule: add_members.induct)
  case (1 model mat sec rot a b names)
  then show ?case
    by (auto simp: add_member_def chain_member_def split: sum.splits if_splits)
qed simp_all

lemma distinct_adjacent: "distinct names \<Longrightarrow> (a, b) \<in> set (zip names (tl names)) \<Longrightarrow> a \<noteq> b"
proof (induction names)
  case Nil
  then show ?case by simp
next
  case (Cons x xs)
  then show ?case
    by (cases xs) (auto dest: set_zip_leftD)
qed

subsection \<open>What the purlin loop and the rafter loop add\<close>

lemma build_purlin_members:
  assumes "build_purlin p model i j = Inr (model', names)"
  shows "fe_members model' = fe_members model
           @ map (chain_member ''purlin_mat'' ''purlin_sec'' (purlin_angle p)) (zip names (tl names))"
proof -
  from assms obtain nodes m1 where reg: "register_nodes model [] nodes = (m1, names)"
    and add: "add_members m1 ''purlin_mat'' ''purlin_sec'' (purlin_angle p) names = Inr model'"
    by (auto simp: build_purlin_def split: sum.splits prod.splits)
  from register_nodes_acc [OF reg] have "fe_members m1 = fe_members model" by auto
  with add_members_Inr [OF add] show ?thesis by simp
qed

lemma build_purlin_invariant:
  assumes "build_purlin p model i j = Inr (model', names)" "only_purlin_members model"
  shows "only_purlin_members model' \<and> chain_built model' (Some names)"
  using assms(2) unfolding build_purlin_members [OF assms(1)] only_purlin_members_def
    chain_built_def
  by (auto simp: list_all_iff chain_member_def image_iff intro!: bexI)

lemma build_purlins_invariant:
  "build_purlins p (model, names) ijs = Inr (model', names') \<Longrightarrow> only_purlin_members model \<Longrightarrow>
   chain_built model names \<Longrightarrow> only_purlin_members model' \<and> chain_built model' names'"
proof (induction ijs arbitrary: model names)
  case Nil
  then show ?case by simp
next
  case (Cons ij ijs)
  obtain i j where ij: "ij = (i, j)" by (cases ij)
  from Cons.prems(1) ij obtain m1 n1 where step: "build_purlin p model i j = Inr (m1, n1)"
    and rest: "build_purlins p (m1, Some n1) ijs = Inr (model', names')"
    by (auto split: sum.splits)
  from build_purlin_invariant [OF step Cons.prems(2)] Cons.IH [OF rest] show ?case by simp
qed

lemma add_column_nodes_members:
  "add_column_nodes p model i cs = Inr (model', nodes) \<Longrightarrow> fe_members model' = fe_members model"
proof (induction cs arbitrary: model model' nodes)
  case Nil
  then show ?case by simp
next
  case (Cons c cs)
  from Cons.prems obtain m1 nodes1 where
    a: "add_node model (node_name (column_coords p ! i ! c)) (column_coords p ! i ! c) = Inr m1"
    and r: "add_column_nodes p m1 i cs = Inr (model', nodes1)"
    by (auto simp: Let_def split: if_splits sum.splits)
  from add_node_cases(2) [OF a] Cons.IH [OF r] show ?case by simp
qed

lemma add_members_existing:
  assumes "add_members model mat sec rot names = Inr model'" "chain_built model (Some names)"
  shows "model' = model"
proof (cases names)
  case Nil
  with assms(1) show ?thesis by simp
next
  case (Cons a rest)
  show ?thesis
  proof (cases rest)
    case Nil
    with Cons assms(1) show ?thesis by simp
  next
    case (Cons b rest')
    with \<open>names = a # rest\<close> assms(2) have "member_name a b \<in> set (map mb_name (fe_members model))"
      by (simp add: chain_built_def)
    then have "add_member model (member_name a b) a b mat sec rot = Inl NameError"
      by (simp add: add_member_def)
    with Cons \<open>names = a # rest\<close> assms(1) show ?thesis by simp
  qed
qed

lemma build_rafter_no_member:
  assumes "build_rafter p names model i = Inr (model', pts)" "chain_built model names"
  shows "fe_members model' = fe_members model"
proof -
  from assms(1) obtain ns m1 cn where ns: "names = Some ns"
    and cols: "add_column_nodes p model i [0..<nat (y_cols p)] = Inr (m1, cn)"
    and add: "add_members m1 ''rafter_mat'' ''rafter_sec'' rafter_angle ns = Inr model'"
    by (auto simp: build_rafter_def split: sum.splits option.splits)
  from add_column_nodes_members [OF cols] have eq: "fe_members m1 = fe_members model" .
  with assms(2) ns have "chain_built m1 (Some ns)" by (simp add: chain_built_def)
  from add_members_existing [OF add this] eq show ?thesis by simp
qed

lemma build_rafters_no_member:
  "build_rafters p names model is = Inr model' \<Longrightarrow> chain_built model names \<Longrightarrow>
   fe_members model' = fe_members model"
proof (induction "is" arbitrary: model)
  case Nil
  then show ?case by simp
next
  case (Cons i "is")
  from Cons.prems(1) obtain m1 pts where step: "build_rafter p names model i = Inr (m1, pts)"
    and rest: "build_rafters p names m1 is = Inr model'"
    by (auto split: sum.splits)
  from build_rafter_no_member [OF step Cons.prems(2)] have eq: "fe_members m1 = fe_members model" .
  with Cons.prems(2) have "chain_built m1 names"
    by (simp add: chain_built_def split: option.splits)
  from Cons.IH [OF rest this] eq show ?case by simp
qed

lemma no_rafter_member_built:
  assumes "build_model p = Inr model"
  shows "only_purlin_members model"
proof -
  from assms obtain m1 names where ps: "purlin_stage p = Inr (m1, names)"
    and rs: "rafter_stage p (m1, names) = Inr model"
    by (auto simp: build_model_def split: sum.splits)
  have "only_purlin_members m1 \<and> chain_built m1 names"
    using ps unfolding purlin_stage_def
    by (rule build_purlins_invariant)
       (simp_all add: only_purlin_members_def chain_built_def add_section_def add_material_def
          FEModel3D_def)
  moreover from this have "chain_built (rafter_model m1) names"
    by (simp add: chain_built_def rafter_model_def add_section_def add_material_def
        split: option.splits)
  moreover have "fe_members (rafter_model m1) = fe_members m1"
    by (simp add: rafter_model_def add_section_def add_material_def)
  moreover from rs have "build_rafters p names (rafter_model m1) [0..<nat (x_cols p)] = Inr model"
    by (simp add: rafter_stage_def rafter_model_def)
  ultimately show ?thesis
    using build_rafters_no_member [of p names "rafter_model m1" "[0..<nat (x_cols p)]" model]
    by (simp add: only_purlin_members_def)
qed

subsection \<open>Column segments, copies, names\<close>

lemma column_segments:
  assumes "column_line p = Inr (m, c)" "seg \<in> set (column_coords p)"
  shows "\<exists>x y. x \<in> set (rafter_x_nodes p) \<and> y \<in> set (column_y_pos p)
           \<and> seg = [(x, y, 0), (x, y, m * y + c)]"
  using assms
  by (auto simp: column_coords_def column_coords_copy_def column_top_height_def zip_map2
      zip_same_conv_map split: if_splits)

lemma column_line_fit:
  assumes "column_line p = Inr (m, c)"
  shows "m * pur_y_pos_1 p (nat (rows p) - 1) + c = pur_z_pos_1 p (nat (rows p) - 1)
       \<and> m * pur_y_pos_2 p (nat (rows p) - 1) + c = pur_z_pos_2 p (nat (rows p) - 1)"
proof -
  let ?r = "nat (rows p) - 1"
  from assms have ne: "pur_y_pos_2 p ?r - pur_y_pos_1 p ?r \<noteq> 0"
    and m: "m = (pur_z_pos_2 p ?r - pur_z_pos_1 p ?r) / (pur_y_pos_2 p ?r - pur_y_pos_1 p ?r)"
    and c: "c = pur_z_pos_2 p ?r - m * pur_y_pos_2 p ?r"
    by (auto simp: column_line_def per_raf_points_def Let_def
        split: if_splits list.splits prod.splits)
  have "m * (pur_y_pos_2 p ?r - pur_y_pos_1 p ?r) = pur_z_pos_2 p ?r - pur_z_pos_1 p ?r"
    using ne m by simp
  then show ?thesis using c by (simp add: algebra_simps)
qed

lemma copy_offsets:
  "px (center_of (column_mesh p i j y_i x_i)) = px (center_of (column_mesh p 0 0 y_i x_i)) + x_gap p * real i"
  "py (center_of (column_mesh p i j y_i x_i)) = py (center_of (column_mesh p 0 0 y_i x_i)) + y_gap p * real j"
  "px (center_of (block_mesh p i j y_i x_i)) = px (center_of (block_mesh p 0 0 y_i x_i)) + x_gap p * real i"
  "py (center_of (block_mesh p i j y_i x_i)) = py (center_of (block_mesh p 0 0 y_i x_i)) + y_gap p * real j"
  "px (center_of (rafter_mesh p i j x_i)) = px (center_of (rafter_mesh p 0 0 x_i)) + x_gap p * real i"
  "py (center_of (rafter_mesh p i j x_i)) = py (center_of (rafter_mesh p 0 0 x_i)) + y_gap p * real j"
  "px (center_of (panel_mesh p i j c r)) = px (center_of (panel_mesh p 0 0 c r)) + x_gap p * real i"
  "py (center_of (panel_mesh p i j c r)) = py (center_of (panel_mesh p 0 0 c r)) + y_gap p * real j"
  by (simp_all add: column_mesh_def block_mesh_def rafter_mesh_def panel_mesh_def
      create_c_section_cq_def create_component_cq_def center_of_def px_def py_def)

lemma purlin_copy_same: "purlin_copy p i j = purlin_copy p 0 0"
  by (simp add: purlin_copy_def)

lemma fmt3_sign_and_milli: "milli x = milli x' \<Longrightarrow> (x < 0) = (x' < 0) \<Longrightarrow> fmt3 x = fmt3 x'"
  by (simp add: fmt3_def)

lemma negative_zero_name:
  "fmt3 (- (1/10000)) = ''-0.000''" "fmt3 (1/10000) = ''0.000''"
  "round3 (- (1/10000)) = round3 (1/10000)"
  by (simp_all add: fmt3_def milli_def round3_def round_half_even_def str_nat.simps
      digit_char_def Let_def)

lemma sorted_points_ascending:
  "sorted_points r_p p_p = Inr pts \<Longrightarrow> sorted (map px pts)"
  by (auto simp: sorted_points_def px_def [abs_def] split: if_splits)

subsection \<open>For every tilt: the fitted line, the first column top, the purlin ends\<close>

lemma column_line_value:
  assumes "column_line p = Inr (m, c)"
  shows "m = tan (angle_rad p) \<and> c = col_min_height p + raf_len p * 1.5"
proof -
  let ?r = "nat (rows p) - 1"
  from assms have ne: "pur_y_pos_2 p ?r - pur_y_pos_1 p ?r \<noteq> 0"
    and m: "m = (pur_z_pos_2 p ?r - pur_z_pos_1 p ?r) / (pur_y_pos_2 p ?r - pur_y_pos_1 p ?r)"
    and c: "c = pur_z_pos_2 p ?r - m * pur_y_pos_2 p ?r"
    by (auto simp: column_line_def per_raf_points_def Let_def
        split: if_splits list.splits prod.splits)
  have "pur_z_pos_2 p ?r - pur_z_pos_1 p ?r
      = tan (angle_rad p) * (pur_y_pos_2 p ?r - pur_y_pos_1 p ?r)"
    by (simp add: pur_z_pos_1_def pur_z_pos_2_def algebra_simps)
  with ne m have "m = tan (angle_rad p)" by simp
  with c show ?thesis by (simp add: pur_z_pos_2_def)
qed

lemma column_line_rows: "column_line p = Inr mc \<Longrightarrow> 1 \<le> rows p"
  by (auto simp: column_line_def split: if_splits)

lemma upt_nat_Cons: "1 \<le> n \<Longrightarrow> [0..<nat n] = 0 # [1..<nat n]"
  by (simp add: upt_conv_Cons)

lemma column_top_is_crossing:
  assumes "column_line p = Inr (m, c)" "front_offset p = purlin_offset p"
    "copies p \<noteq> []" "1 \<le> x_cols p" "1 \<le> y_cols p"
  shows "column_coords p ! 0 ! 1 = raf_pur_inter_points p ! 0 ! 0 ! 0"
proof -
  from assms(3) obtain ij ijs where cp: "copies p = ij # ijs" by (cases "copies p") auto
  obtain i j where ij: "ij = (i, j)" by (cases ij)
  from column_line_rows [OF assms(1)] have rows: "[0..<nat (rows p)] = 0 # [1..<nat (rows p)]"
    by (rule upt_nat_Cons)
  from assms(4) have xs: "[0..<nat (x_cols p)] = 0 # [1..<nat (x_cols p)]" by (rule upt_nat_Cons)
  from assms(5) have ys: "[0..<nat (y_cols p)] = 0 # [1..<nat (y_cols p)]" by (rule upt_nat_Cons)
  from column_line_value [OF assms(1)] have mc: "m = tan (angle_rad p)"
    "c = col_min_height p + raf_len p * 1.5" by simp_all
  have "column_coords p ! 0 ! 1
      = (rafter_rx p 0, col_cy p 0, m * col_cy p 0 + c)"
    using assms(1)
    by (simp add: column_coords_def column_coords_copy_def column_top_height_def
        column_y_pos_def rafter_x_nodes_def cp ij xs ys)
  moreover have "raf_pur_inter_points p ! 0 ! 0 ! 0
      = (rafter_rx p 0, pur_y_pos_1 p 0, pur_z_pos_1 p 0)"
    by (simp add: raf_pur_inter_points_def copy_rows_def per_raf_points_def rafter_x_nodes_def
        cp ij xs rows)
  moreover have "col_cy p 0 = pur_y_pos_1 p 0"
    using assms(2) by (simp add: col_cy_def pur_y_pos_1_def)
  ultimately show ?thesis
    by (simp add: mc pur_z_pos_1_def algebra_simps)
qed

lemma hd_sort_key_le:
  assumes "x \<in> set xs"
  shows "f (hd (sort_key f xs)) \<le> f x"
proof -
  have s: "sorted (map f (sort_key f xs))" by simp
  from assms have mem: "x \<in> set (sort_key f xs)" by simp
  then obtain y ys where ys: "sort_key f xs = y # ys" by (cases "sort_key f xs") auto
  with mem s show ?thesis by auto
qed

lemma zero_in_panel_x_coords:
  assumes "copies p \<noteq> []" "1 \<le> cols p"
  shows "0 \<in> set (panel_x_coords p)"
proof -
  from assms(2) have "0 \<in> set [0..<nat (cols p)]" by simp
  moreover have "panel_x_coord p 0 = 0" by (simp add: panel_x_coord_def panel_local_x_def)
  ultimately have "0 \<in> panel_x_coord p ` set [0..<nat (cols p)]" by force
  with assms(1) show ?thesis
    by (cases "copies p") (auto simp: panel_x_coords_def)
qed

lemma purlin_chain_starts_backwards:
  assumes "hor_purlin_overhang p < hor_panel_overhang p" "1 \<le> cols p"
    "i < length (pur_points p)" "j < 2"
    "one_purlin_nodes (pur_points p ! i ! j) (raf_pur_inter_points p ! i ! j)
       (pur_pan_inter_points p ! i ! j) = Inr nodes"
  shows "\<exists>a b rest. nodes = a # b # rest \<and> px b < px a"
proof -
  from assms(3) have cp: "copies p \<noteq> []" by (auto simp: pur_points_def copy_rows_def)
  from assms(4) have j: "j = 0 \<or> j = 1" by auto
  define row where "row = copy_rows p ! i"
  define cy where "cy = (if j = 0 then pur_y_pos_1 p row else pur_y_pos_2 p row)"
  define cz where "cz = (if j = 0 then pur_z_pos_1 p row else pur_z_pos_2 p row)"
  from assms(3) j have ends: "pur_points p ! i ! j = per_points p cy cz"
    and raf: "raf_pur_inter_points p ! i ! j = per_raf_points p cy cz"
    and pan: "pur_pan_inter_points p ! i ! j = per_pan_points p cy cz"
    by (auto simp: pur_points_def raf_pur_inter_points_def pur_pan_inter_points_def row_def
        cy_def cz_def)
  let ?left = "(purlin_cx p - perlin_height p / 2, cy, cz)"
  let ?pts = "per_raf_points p cy cz @ per_pan_points p cy cz"
  from assms(5) have nodes: "nodes = ?left # sort_key fst ?pts
      @ [(purlin_cx p + perlin_height p / 2, cy, cz)]"
    and ne: "?pts \<noteq> []"
    by (auto simp: ends raf pan one_purlin_nodes_def sorted_points_def per_points_def
        split: if_splits)
  from zero_in_panel_x_coords [OF cp assms(2)] have "(0, cy, cz) \<in> set ?pts"
    by (auto simp: per_pan_points_def)
  from hd_sort_key_le [OF this, of fst] have le: "fst (hd (sort_key fst ?pts)) \<le> 0" by simp
  from ne have "sort_key fst ?pts \<noteq> []" by (metis length_0_conv length_sort)
  then obtain b bs where bs: "sort_key fst ?pts = b # bs" by (cases "sort_key fst ?pts") auto
  have "0 < px ?left"
    using assms(1) by (simp add: px_def purlin_cx_def perlin_height_def)
  with le bs nodes show ?thesis by (auto simp: px_def)
qed

subsection \<open>The indices of the two loops stay in range\<close>

lemma length_rafter_x_nodes: "length (rafter_x_nodes p) = length (copies p) * nat (x_cols p)"
  unfolding rafter_x_nodes_def
  by (subst length_concat_map_const [where n = "nat (x_cols p)"]) auto

lemma purlin_lists_shape:
  "length (raf_pur_inter_points p) = length (pur_points p)"
  "length (pur_pan_inter_points p) = length (pur_points p)"
  "i < length (pur_points p) \<Longrightarrow> length (pur_points p ! i) = 2"
  "i < length (pur_points p) \<Longrightarrow> length (raf_pur_inter_points p ! i) = 2"
  "i < length (pur_points p) \<Longrightarrow> length (pur_pan_inter_points p ! i) = 2"
  by (simp_all add: pur_points_def raf_pur_inter_points_def pur_pan_inter_points_def)

lemma rafter_crossings_in_range:
  assumes "j < length (raf_pur_inter_points p)" "k < 2" "i < nat (x_cols p)"
  shows "k < length (raf_pur_inter_points p ! j) \<and> i < length (raf_pur_inter_points p ! j ! k)"
proof -
  from assms(1) have "copies p \<noteq> []"
    by (auto simp: raf_pur_inter_points_def copy_rows_def)
  then have "1 \<le> length (copies p)" by (cases "copies p") simp_all
  then have "1 * nat (x_cols p) \<le> length (copies p) * nat (x_cols p)" by (rule mult_le_mono1)
  then have "nat (x_cols p) \<le> length (copies p) * nat (x_cols p)" by (simp only: mult_1)
  with assms(3) have "i < length (copies p) * nat (x_cols p)" by (rule less_le_trans)
  then have i: "i < length (rafter_x_nodes p)" by (simp only: length_rafter_x_nodes)
  from assms(2) have "k = 0 \<or> k = 1" by auto
  with assms(1) i show ?thesis
    by (auto simp: raf_pur_inter_points_def per_raf_points_def)
qed

subsection \<open>The structural model: what the code does\<close>

text \<open>
  Claim C1 says that every rafter's members are chained from the rafter's own points,
  its purlin crossings and its column attachment, and from no other component's node
  sequence. The code collects these points but runs the member loop of the rafter over
  \<open>node_names\<close>, the list the last purlin left behind. At the dashboard's offsets with the
  columns moved off the purlin lines: \<open>node_names\<close> holds the four nodes of the lower
  purlin, the crossings of rafter 0 are the two points at X = 0.2, the two column nodes of
  the rafter are added, and the member loop asks for the lower purlin's first member
  again, which raises; the build fails.
\<close>

theorem rafter_chain_from_purlin_names:
  "purlin_names columns_off =
     Inr (Some [''N_0.000_1.400_2.225'', ''N_0.200_1.400_2.225'', ''N_0.800_1.400_2.225'',
                ''N_1.000_1.400_2.225''])
   \<and> map node_name (rafter_crossings columns_off 0) =
       [''N_0.200_0.300_2.225'', ''N_0.200_1.400_2.225'']
   \<and> (\<exists>model names model' column_nodes.
         purlin_stage columns_off = Inr (model, Some names)
         \<and> add_column_nodes columns_off (rafter_model model) 0 [0..<nat (y_cols columns_off)]
             = Inr (model', column_nodes)
         \<and> map node_name column_nodes = [''N_0.200_0.400_0.000'', ''N_0.200_0.400_2.225'']
         \<and> add_members model' ''rafter_mat'' ''rafter_sec'' rafter_angle names = Inl NameError)
   \<and> build_model columns_off = Inl NameError"
  by (simp add: purlin_names_def build_model_def purlin_stage_def rafter_stage_def
      build_rafter_def rafter_crossings_def purlin_indices_vals lists_columns_off
      fields_columns_off model_defs upt_rec Let_def)

text \<open>
  Claim C2 says that a point met again resolves to the node that exists and that the node
  is reused, on the purlin side and on the rafter side alike. At the dashboard's default
  offsets the top of the first column is the point where the first rafter crosses the
  upper purlin (lemma \<open>column_top_is_crossing\<close>, for every tilt), and both get the same
  name. The purlin loop has added that node; the rafter loop adds it again with no \<open>try\<close>
  around \<open>add_node\<close>, which raises, and \<open>generate_structure\<close> fails.
\<close>

theorem column_top_node_raises:
  "node_name (column_coords base_params ! 0 ! 1)
     = node_name (raf_pur_inter_points base_params ! 0 ! 0 ! 0)
   \<and> (\<exists>model names.
         purlin_stage base_params = Inr (model, names)
         \<and> node_name (column_coords base_params ! 0 ! 1) \<in> set (node_names_of model)
         \<and> add_column_nodes base_params (rafter_model model) 0 [0..<nat (y_cols base_params)]
             = Inl NameError)
   \<and> generate_structure base_params = Inl NameError"
  by (simp add: generate_structure_def layout_error_vals build_model_def purlin_stage_def
      rafter_stage_def build_rafter_def purlin_indices_vals lists_base_params
      fields_base_params model_defs upt_rec Let_def)

text \<open>
  Claim C3 says that every component of copy \<open>(i, j)\<close> is shifted by \<open>i * x_gap\<close> and
  \<open>j * y_gap\<close>. Columns, blocks, rafters and panels are (lemma \<open>copy_offsets\<close>); the purlin
  loop runs over the copies too but its centre does not use \<open>i\<close> or \<open>j\<close>. With two copies
  20 apart the purlins of the second copy are requested where those of the first are, at
  X = 0.5, while the rafter of the second copy is at 20.3; the call returns this list.
\<close>

theorem purlin_copies_not_shifted:
  "copies two_copies = [(0, 0), (1, 0)] \<and> x_gap two_copies = 20
   \<and> map (\<lambda>m. px (center_of m)) (purlin_copy two_copies 0 0) = [1/2, 1/2]
   \<and> map (\<lambda>m. px (center_of m)) (purlin_copy two_copies 1 0) = [1/2, 1/2]
   \<and> map (\<lambda>m. px (center_of m)) (purlin_meshes two_copies) = [1/2, 1/2, 1/2, 1/2]
   \<and> map (\<lambda>m. px (center_of m)) (rafter_meshes two_copies) = [3/10, 203/10]
   \<and> generate_structure two_copies = Inr (meshes two_copies, all_fea_nodes two_copies)"
  by (simp add: generate_two_copies)
     (simp add: purlin_meshes_def purlin_copy_def purlin_row_meshes_def purlin_mesh_def
      rafter_meshes_def rafter_mesh_def create_c_section_cq_def center_of_def px_def
      dimension_defs
      two_copies_def base_params_def upt_rec)

text \<open>
  Claim C4 says that a chain of fewer than two points, or a member with two equal ends,
  makes the whole build fail, and that a node met again is taken by an explicit
  insert-or-get. In the code a node met again raises inside \<open>add_node\<close> and the error is
  caught and dropped with the point; a purlin left with fewer than two names gets no
  member and nothing is raised. With two copies every point of the second copy's purlins
  exists already: the last purlin chains no name at all, and \<open>generate_structure\<close> returns.
\<close>

theorem short_chain_is_silent:
  "purlin_names two_copies = Inr (Some [])
   \<and> generate_structure two_copies = Inr (meshes two_copies, all_fea_nodes two_copies)"
  by (simp add: purlin_names_two_copies generate_two_copies)

text \<open>
  Claim C4, as the code has it. When the points of a purlin are registered in a model, a
  point whose name is a node of the model already is dropped and no error leaves the
  loop; the names chained are those of the points that were new, each once, and they
  become the model's newest nodes; no member is touched. A chain of fewer than two names
  adds no member and raises nothing. When the members of the chain are added, they join
  consecutive names, and the two ends of each differ.
\<close>

theorem purlin_chain_registration:
  assumes "register_nodes model [] pts = (model', names)"
  shows "distinct names
    \<and> set names = node_name ` set pts - set (node_names_of model)
    \<and> node_names_of model' = node_names_of model @ names
    \<and> fe_members model' = fe_members model
    \<and> (length names < 2 \<longrightarrow> add_members model' mat sec rot names = Inr model')
    \<and> (\<forall>model''. add_members model' mat sec rot names = Inr model'' \<longrightarrow>
          fe_members model'' = fe_members model'
             @ map (chain_member mat sec rot) (zip names (tl names))
          \<and> (\<forall>ab \<in> set (zip names (tl names)). fst ab \<noteq> snd ab))"
proof -
  from register_nodes_acc [OF assms] have *: "distinct names"
    "set names = node_name ` set pts - set (node_names_of model)"
    "node_names_of model' = node_names_of model @ names" "fe_members model' = fe_members model"
    by auto
  have "\<forall>ab \<in> set (zip names (tl names)). fst ab \<noteq> snd ab"
    using distinct_adjacent [OF *(1)] by auto
  with * show ?thesis
    by (auto simp: add_members_short dest: add_members_Inr)
qed

theorem purlin_chain_registration_witness:
  "register_nodes FEModel3D [] [(0, 0, 0), (1, 0, 0), (0, 0, 0), (1, 0, 0)]
     = (FEModel3D\<lparr>fe_nodes := [(''N_0.000_0.000_0.000'', (0, 0, 0)),
                                (''N_1.000_0.000_0.000'', (1, 0, 0))]\<rparr>,
        [''N_0.000_0.000_0.000'', ''N_1.000_0.000_0.000''])
   \<and> register_nodes (FEModel3D\<lparr>fe_nodes := [(''N_0.000_0.000_0.000'', (0, 0, 0))]\<rparr>) []
        [(0, 0, 0), (0, 0, 0)]
     = (FEModel3D\<lparr>fe_nodes := [(''N_0.000_0.000_0.000'', (0, 0, 0))]\<rparr>, [])
   \<and> add_members (FEModel3D\<lparr>fe_nodes := [(''N_0.000_0.000_0.000'', (0, 0, 0))]\<rparr>)
        ''purlin_mat'' ''purlin_sec'' 90 []
     = Inr (FEModel3D\<lparr>fe_nodes := [(''N_0.000_0.000_0.000'', (0, 0, 0))]\<rparr>)
   \<and> distinct [''N_0.000_0.000_0.000'', ''N_1.000_0.000_0.000'']"
proof -
  have r1: "register_nodes FEModel3D [] [(0, 0, 0), (1, 0, 0), (0, 0, 0), (1, 0, 0)]
     = (FEModel3D\<lparr>fe_nodes := [(''N_0.000_0.000_0.000'', (0, 0, 0)),
                                (''N_1.000_0.000_0.000'', (1, 0, 0))]\<rparr>,
        [''N_0.000_0.000_0.000'', ''N_1.000_0.000_0.000''])"
    by (simp add: model_defs)
  have r2: "register_nodes (FEModel3D\<lparr>fe_nodes := [(''N_0.000_0.000_0.000'', (0, 0, 0))]\<rparr>) []
        [(0, 0, 0), (0, 0, 0)]
     = (FEModel3D\<lparr>fe_nodes := [(''N_0.000_0.000_0.000'', (0, 0, 0))]\<rparr>, [])"
    by (simp add: model_defs)
  from purlin_chain_registration [OF r1]
    purlin_chain_registration [OF r2, of "''purlin_mat''" "''purlin_sec''" 90]
  show ?thesis using r1 r2 by simp
qed

text \<open>
  Claim C5 says that the chain of a purlin visits its nodes in strictly ascending X with
  no two consecutive nodes equal. The code orders the rafter crossings and the panel-edge
  points by X and puts the left end before them and the right end after them, wherever
  the ends lie. With a purlin overhang of 0.1 under a panel overhang of 0.2 the left end is
  at X = 0.1 and the first panel edge at X = 0: the chain starts 0.1, 0, 0.2, and the first
  member of each purlin runs backwards. The same holds whenever the purlin overhang is
  the smaller one (lemma \<open>purlin_chain_starts_backwards\<close>).
\<close>

theorem purlin_chain_not_ascending:
  "one_purlin_nodes (pur_points short_purlin ! 0 ! 0) (raf_pur_inter_points short_purlin ! 0 ! 0)
       (pur_pan_inter_points short_purlin ! 0 ! 0)
     = Inr [(1/10, 3/10, 89/40), (0, 3/10, 89/40), (1/5, 3/10, 89/40), (4/5, 3/10, 89/40),
            (9/10, 3/10, 89/40)]
   \<and> purlin_members short_purlin =
       Inr [(''N_0.100_0.300_2.225'', ''N_0.000_0.300_2.225''),
            (''N_0.000_0.300_2.225'', ''N_0.200_0.300_2.225''),
            (''N_0.200_0.300_2.225'', ''N_0.800_0.300_2.225''),
            (''N_0.800_0.300_2.225'', ''N_0.900_0.300_2.225''),
            (''N_0.100_1.400_2.225'', ''N_0.000_1.400_2.225''),
            (''N_0.000_1.400_2.225'', ''N_0.200_1.400_2.225''),
            (''N_0.200_1.400_2.225'', ''N_0.800_1.400_2.225''),
            (''N_0.800_1.400_2.225'', ''N_0.900_1.400_2.225'')]
   \<and> \<not> sorted_wrt (<) (map px [(1/10, 3/10, 89/40), (0, 3/10, 89/40), (1/5, 3/10, 89/40),
                                (4/5, 3/10, 89/40), (9/10, 3/10, 89/40)])"
  by (simp add: purlin_members_def purlin_stage_def purlin_indices_vals lists_short_purlin
      fields_short_purlin model_defs px_def)

text \<open>
  Claim C8 says that every column is one two-node member of the structural model, from
  the ground point to the soffit point on the fitted line. The two points are computed
  as the claim says (lemmas \<open>column_segments\<close> and \<open>column_line_fit\<close>) and, for the first
  segments, added as nodes by the rafter loop; no member is ever put between them. With
  two copies, where the build returns: the first segment runs from (0.3, 0.4, 0) to
  (0.3, 0.4, 2.225), both are nodes of the model, and its four members are purlin members.
\<close>

theorem no_column_member:
  "column_coords two_copies ! 0 = [(3/10, 2/5, 0), (3/10, 2/5, 89/40)]
   \<and> map node_name (column_coords two_copies ! 0)
       = [''N_0.300_0.400_0.000'', ''N_0.300_0.400_2.225'']
   \<and> built_nodes two_copies =
       Inr [''N_0.000_0.300_2.225'', ''N_0.300_0.300_2.225'', ''N_1.000_0.300_2.225'',
            ''N_0.000_1.400_2.225'', ''N_0.300_1.400_2.225'', ''N_1.000_1.400_2.225'',
            ''N_0.300_0.400_0.000'', ''N_0.300_0.400_2.225'']
   \<and> built_members two_copies =
       Inr [(''N_0.000_0.300_2.225'', ''N_0.300_0.300_2.225'', ''purlin_sec''),
            (''N_0.300_0.300_2.225'', ''N_1.000_0.300_2.225'', ''purlin_sec''),
            (''N_0.000_1.400_2.225'', ''N_0.300_1.400_2.225'', ''purlin_sec''),
            (''N_0.300_1.400_2.225'', ''N_1.000_1.400_2.225'', ''purlin_sec'')]"
  by (intro conjI first_column_two_copies built_nodes_two_copies built_members_two_copies)

end
